theory Spec2Isabelle
  imports Complex_Main
begin

section \<open>The declaration file \<^verbatim>\<open>index.d.ts\<close> as a syntax tree\<close>

text \<open>
  The repository is one TypeScript declaration file. It has no function bodies, so
  its embedding is the tree of its declarations: type annotations, members of
  interfaces and classes, type aliases and function signatures, in source order.
  Comments are not part of the tree; the \<^verbatim>\<open>@returns\<close> tags and the
  documentation comments of the table elements are kept in tables of their own.
  Function bodies and
  property initialisers, which TypeScript's grammar allows at these places, are
  optional fields of the nodes, so that their absence in the file is a property of
  the tree.
\<close>

subsection \<open>Type annotations\<close>

text \<open>
  Keyword types, the \<^verbatim>\<open>null\<close> type, string literal types, type
  references with their type arguments (\<^verbatim>\<open>Module\<close>,
  \<^verbatim>\<open>Promise<Module>\<close>), array types, union types and function types.
  A parameter has a name, the \<^verbatim>\<open>?\<close> mark and a type.
  Parentheses around a type are not kept.
\<close>

datatype ty =
    TAny
  | TNumber
  | TString
  | TBoolean
  | TVoid
  | TNull
  | TLit string
  | TRef string "ty list"
  | TArray ty
  | TUnion "ty list"
  | TFun "param list" ty
and param =
    Param string bool ty

subsection \<open>Members and declarations\<close>

text \<open>
  A property signature \<^verbatim>\<open>readonly name?: T = init\<close>, a constructor and a
  method. The last field of each is the initialiser or the body, as source text.
\<close>

datatype member =
    PropertySig string bool bool ty "string option"
  | Constructor "param list" "string option"
  | Method string bool "param list" ty "string option"

text \<open>
  The declarations of a namespace body: an interface with its \<^verbatim>\<open>extends\<close>
  list, a class with its optional \<^verbatim>\<open>extends\<close> clause, a type alias and a
  function signature with an optional body.
\<close>

datatype decl =
    InterfaceDecl string "string list" "member list"
  | ClassDecl string "string option" "member list"
  | TypeAliasDecl string ty
  | FunctionDecl string "param list" ty "string option"

text \<open>
  A top-level item of the file: a namespace with its \<^verbatim>\<open>declare\<close> modifier,
  its name and its body, or any other statement, as source text.
\<close>

datatype toplevel =
    NamespaceDecl bool string "decl list"
  | Statement string

subsection \<open>Abbreviations for the transcription\<close>

definition req :: "string \<Rightarrow> ty \<Rightarrow> param" where
  "req n t = Param n False t"

definition opt :: "string \<Rightarrow> ty \<Rightarrow> param" where
  "opt n t = Param n True t"

definition ref :: "string \<Rightarrow> ty" where
  "ref n = TRef n []"

definition promise :: "ty \<Rightarrow> ty" where
  "promise t = TRef ''Promise'' [t]"

subsection \<open>Lines 11 to 219: the first namespace declaration\<close>

definition first_copy :: "decl list" where
  "first_copy =
   [ InterfaceDecl ''ModuleExport'' []
       [ PropertySig ''name'' False False TString None,
         PropertySig ''kind'' False False TString None ],
     InterfaceDecl ''ModuleImport'' [''ModuleExport'']
       [ PropertySig ''module'' False False TString None ],
     ClassDecl ''Module'' None
       [ Constructor [req ''bufferSource'' (ref ''BufferSource'')] None,
         Method ''customSections'' True
           [req ''module'' (ref ''Module''), req ''sectionName'' TString]
           (TArray (ref ''ArrayBuffer'')) None,
         Method ''exports'' True [req ''module'' (ref ''Module'')]
           (TArray (ref ''ModuleExport'')) None,
         Method ''imports'' True [req ''module'' (ref ''Module'')]
           (TArray (ref ''ModuleImport'')) None ],
     ClassDecl ''Instance'' None
       [ PropertySig ''exports'' True False TAny None,
         Constructor [req ''module'' (ref ''Module''), opt ''importObject'' TAny] None ],
     InterfaceDecl ''MemoryDescriptor'' []
       [ PropertySig ''initial'' False False TNumber None,
         PropertySig ''maximum'' False True TNumber None ],
     ClassDecl ''Memory'' None
       [ PropertySig ''buffer'' True False (ref ''ArrayBuffer'') None,
         Constructor [req ''memoryDescriptor'' (ref ''MemoryDescriptor'')] None,
         Method ''grow'' False [req ''numPages'' TNumber] TNumber None ],
     InterfaceDecl ''TableDescriptor'' [''MemoryDescriptor'']
       [ PropertySig ''element'' False False (TLit ''anyfunc'') None ],
     TypeAliasDecl ''AnyFunc''
       (TUnion [TFun [req ''args'' (TArray TAny)] TAny, TNull]),
     ClassDecl ''Table'' None
       [ PropertySig ''length'' True False TNumber None,
         Constructor [req ''tableDescriptor'' (ref ''TableDescriptor'')] None,
         Method ''get'' False [req ''index'' TNumber] (ref ''AnyFunc'') None,
         Method ''grow'' False [req ''numElements'' TNumber] TNumber None,
         Method ''set'' False
           [req ''index'' TNumber, req ''value'' (ref ''AnyFunc'')] TVoid None ],
     ClassDecl ''CompileError'' (Some ''Error'') [],
     ClassDecl ''LinkError'' (Some ''Error'') [],
     ClassDecl ''RuntimeError'' (Some ''Error'') [],
     FunctionDecl ''compile'' [req ''bufferSource'' (ref ''BufferSource'')]
       (promise (ref ''Module'')) None,
     FunctionDecl ''compileStreaming''
       [req ''source'' (TUnion [ref ''Response'', promise (ref ''Response'')])]
       (promise (ref ''Module'')) None,
     InterfaceDecl ''ResultObject'' []
       [ PropertySig ''module'' False False (ref ''Module'') None,
         PropertySig ''instance'' False False (ref ''Instance'') None ],
     FunctionDecl ''instantiate''
       [req ''bufferSource'' (ref ''BufferSource''), opt ''importObject'' TAny]
       (promise (ref ''ResultObject'')) None,
     FunctionDecl ''instantiate''
       [req ''module'' (ref ''Module''), opt ''importObject'' TAny]
       (promise (ref ''Instance'')) None,
     FunctionDecl ''instantiateStreaming''
       [req ''source'' (TUnion [ref ''Response'', promise (ref ''Response'')]),
        opt ''importObject'' TAny]
       (promise (ref ''ResultObject'')) None,
     FunctionDecl ''validate'' [req ''bufferSource'' (ref ''BufferSource'')]
       TBoolean None ]"

subsection \<open>Lines 231 to 311: the second namespace declaration\<close>

definition second_copy :: "decl list" where
  "second_copy =
   [ InterfaceDecl ''ModuleExport'' []
       [ PropertySig ''name'' False False TString None,
         PropertySig ''kind'' False False TString None ],
     InterfaceDecl ''ModuleImport'' [''ModuleExport'']
       [ PropertySig ''module'' False False TString None ],
     ClassDecl ''Module'' None
       [ Constructor
           [req ''bufferSource'' (TUnion [ref ''ArrayBuffer'', ref ''Uint8Array''])] None,
         Method ''customSections'' True
           [req ''module'' (ref ''Module''), req ''sectionName'' TString]
           (TArray (ref ''ArrayBuffer'')) None,
         Method ''exports'' True [req ''module'' (ref ''Module'')]
           (TArray (ref ''ModuleExport'')) None,
         Method ''imports'' True [req ''module'' (ref ''Module'')]
           (TArray (ref ''ModuleImport'')) None ],
     ClassDecl ''Instance'' None
       [ PropertySig ''exports'' True False TAny None,
         Constructor [req ''module'' (ref ''Module''), opt ''importObject'' TAny] None ],
     InterfaceDecl ''MemoryDescriptor'' []
       [ PropertySig ''initial'' False False TNumber None,
         PropertySig ''maximum'' False True TNumber None ],
     ClassDecl ''Memory'' None
       [ PropertySig ''buffer'' True False (ref ''ArrayBuffer'') None,
         Constructor [req ''memoryDescriptor'' (ref ''MemoryDescriptor'')] None,
         Method ''grow'' False [req ''numPages'' TNumber] TNumber None ],
     InterfaceDecl ''TableDescriptor'' [''MemoryDescriptor'']
       [ PropertySig ''element'' False False (TLit ''anyfunc'') None ],
     TypeAliasDecl ''AnyFunc'' (TFun [req ''args'' (TArray TAny)] TAny),
     ClassDecl ''Table'' None
       [ PropertySig ''length'' True False TNumber None,
         Constructor [req ''tableDescriptor'' (ref ''TableDescriptor'')] None,
         Method ''get'' False [req ''index'' TNumber] (ref ''AnyFunc'') None,
         Method ''grow'' False [req ''numElements'' TNumber] TNumber None,
         Method ''set'' False
           [req ''index'' TNumber, req ''value'' (ref ''AnyFunc'')] TVoid None ],
     ClassDecl ''CompileError'' (Some ''Error'') [],
     ClassDecl ''LinkError'' (Some ''Error'') [],
     ClassDecl ''RuntimeError'' (Some ''Error'') [],
     FunctionDecl ''compile''
       [req ''bufferSource'' (TUnion [ref ''ArrayBuffer'', ref ''Uint8Array''])]
       (promise (ref ''Module'')) None,
     InterfaceDecl ''ResultObject'' []
       [ PropertySig ''module'' False False (ref ''Module'') None,
         PropertySig ''instance'' False False (ref ''Instance'') None ],
     FunctionDecl ''instantiate''
       [req ''bufferSource'' (TUnion [ref ''ArrayBuffer'', ref ''Uint8Array'']),
        opt ''importObject'' TAny]
       (promise (ref ''ResultObject'')) None,
     FunctionDecl ''instantiate''
       [req ''module'' (ref ''Module''), opt ''importObject'' TAny]
       (promise (ref ''Instance'')) None,
     FunctionDecl ''validate''
       [req ''bufferSource'' (TUnion [ref ''ArrayBuffer'', ref ''Uint8Array''])]
       TBoolean None ]"

subsection \<open>The file\<close>

definition index_d_ts :: "toplevel list" where
  "index_d_ts =
   [ NamespaceDecl True ''WebAssembly'' first_copy,
     NamespaceDecl True ''WebAssembly'' second_copy ]"


section \<open>Reading the tree\<close>

subsection \<open>Names, kinds and lookup\<close>

datatype kind = KInterface | KClass | KTypeAlias | KFunction

fun decl_name :: "decl \<Rightarrow> string" where
  "decl_name (InterfaceDecl n ps ms) = n"
| "decl_name (ClassDecl n p ms) = n"
| "decl_name (TypeAliasDecl n t) = n"
| "decl_name (FunctionDecl n ps r b) = n"

fun decl_kind :: "decl \<Rightarrow> kind" where
  "decl_kind (InterfaceDecl n ps ms) = KInterface"
| "decl_kind (ClassDecl n p ms) = KClass"
| "decl_kind (TypeAliasDecl n t) = KTypeAlias"
| "decl_kind (FunctionDecl n ps r b) = KFunction"

definition outline :: "decl list \<Rightarrow> (kind \<times> string) list" where
  "outline ds = map (\<lambda>d. (decl_kind d, decl_name d)) ds"

text \<open>The bodies of the namespaces called \<open>n\<close>, in file order.\<close>

fun namespace_bodies :: "string \<Rightarrow> toplevel list \<Rightarrow> decl list list" where
  "namespace_bodies n [] = []"
| "namespace_bodies n (NamespaceDecl a m ds # rest) =
     (if m = n then ds # namespace_bodies n rest else namespace_bodies n rest)"
| "namespace_bodies n (Statement s # rest) = namespace_bodies n rest"

definition copies :: "decl list list" where
  "copies = namespace_bodies ''WebAssembly'' index_d_ts"

text \<open>The first declaration of each kind with a given name.\<close>

fun find_interface :: "decl list \<Rightarrow> string \<Rightarrow> (string list \<times> member list) option" where
  "find_interface [] n = None"
| "find_interface (InterfaceDecl m ps ms # ds) n =
     (if m = n then Some (ps, ms) else find_interface ds n)"
| "find_interface (d # ds) n = find_interface ds n"

fun find_class :: "decl list \<Rightarrow> string \<Rightarrow> (string option \<times> member list) option" where
  "find_class [] n = None"
| "find_class (ClassDecl m p ms # ds) n =
     (if m = n then Some (p, ms) else find_class ds n)"
| "find_class (d # ds) n = find_class ds n"

fun find_alias :: "decl list \<Rightarrow> string \<Rightarrow> ty option" where
  "find_alias [] n = None"
| "find_alias (TypeAliasDecl m t # ds) n =
     (if m = n then Some t else find_alias ds n)"
| "find_alias (d # ds) n = find_alias ds n"

text \<open>Every signature of the functions called \<open>n\<close>: the overloads, in order.\<close>

fun signatures :: "decl list \<Rightarrow> string \<Rightarrow> (param list \<times> ty) list" where
  "signatures [] n = []"
| "signatures (FunctionDecl m ps r b # ds) n =
     (if m = n then (ps, r) # signatures ds n else signatures ds n)"
| "signatures (d # ds) n = signatures ds n"

text \<open>The methods called \<open>n\<close> among members: static flag, parameters, return type.\<close>

fun methods_named :: "member list \<Rightarrow> string \<Rightarrow> (bool \<times> param list \<times> ty) list" where
  "methods_named [] n = []"
| "methods_named (Method m s ps r b # ms) n =
     (if m = n then (s, ps, r) # methods_named ms n else methods_named ms n)"
| "methods_named (x # ms) n = methods_named ms n"

definition class_methods :: "decl list \<Rightarrow> string \<Rightarrow> string \<Rightarrow> (bool \<times> param list \<times> ty) list" where
  "class_methods ds c n =
     (case find_class ds c of None \<Rightarrow> [] | Some (p, ms) \<Rightarrow> methods_named ms n)"

subsection \<open>Members of an interface, with the inherited ones\<close>

text \<open>
  The members of the interfaces named in the \<^verbatim>\<open>extends\<close> list come first, then
  the interface's own. The first argument bounds the length of the chain of
  \<^verbatim>\<open>extends\<close> clauses that is followed; a chain without a cycle is no longer
  than the number of declarations.
\<close>

fun members_upto :: "nat \<Rightarrow> decl list \<Rightarrow> string \<Rightarrow> member list" where
  "members_upto 0 ds n = []"
| "members_upto (Suc k) ds n =
     (case find_interface ds n of
        None \<Rightarrow> []
      | Some (ps, ms) \<Rightarrow> concat (map (members_upto k ds) ps) @ ms)"

definition interface_members :: "decl list \<Rightarrow> string \<Rightarrow> member list" where
  "interface_members ds n = members_upto (length ds) ds n"

fun is_property :: "member \<Rightarrow> bool" where
  "is_property (PropertySig n ro q t i) = True"
| "is_property m = False"

subsection \<open>Bodies and initialisers\<close>

fun option_list :: "'a option \<Rightarrow> 'a list" where
  "option_list None = []"
| "option_list (Some x) = [x]"

fun member_code :: "member \<Rightarrow> string list" where
  "member_code (PropertySig n ro q t i) = option_list i"
| "member_code (Constructor ps b) = option_list b"
| "member_code (Method n s ps r b) = option_list b"

fun decl_code :: "decl \<Rightarrow> string list" where
  "decl_code (InterfaceDecl n ps ms) = concat (map member_code ms)"
| "decl_code (ClassDecl n p ms) = concat (map member_code ms)"
| "decl_code (TypeAliasDecl n t) = []"
| "decl_code (FunctionDecl n ps r b) = option_list b"

fun toplevel_code :: "toplevel \<Rightarrow> string list" where
  "toplevel_code (NamespaceDecl a n ds) = concat (map decl_code ds)"
| "toplevel_code (Statement s) = [s]"

definition executable_code :: "toplevel list \<Rightarrow> string list" where
  "executable_code f = concat (map toplevel_code f)"

fun is_ambient :: "toplevel \<Rightarrow> bool" where
  "is_ambient (NamespaceDecl a n ds) = a"
| "is_ambient (Statement s) = False"

subsection \<open>Inheritance\<close>

text \<open>Every \<^verbatim>\<open>extends\<close> clause: who declares it, its name and the name it extends.\<close>

fun heritage :: "decl \<Rightarrow> (kind \<times> string \<times> string) list" where
  "heritage (InterfaceDecl n ps ms) = map (\<lambda>p. (KInterface, n, p)) ps"
| "heritage (ClassDecl n (Some p) ms) = [(KClass, n, p)]"
| "heritage d = []"

definition heritages :: "decl list \<Rightarrow> (kind \<times> string \<times> string) list" where
  "heritages ds = concat (map heritage ds)"

fun is_subclass :: "decl \<Rightarrow> bool" where
  "is_subclass (ClassDecl n (Some p) ms) = True"
| "is_subclass d = False"

definition kinds_of :: "decl list \<Rightarrow> string \<Rightarrow> kind list" where
  "kinds_of ds n = map decl_kind (filter (\<lambda>d. decl_name d = n) ds)"

subsection \<open>Where a type name is used\<close>

datatype site =
    PropertyType string string
  | ConstructorParam string string
  | MethodParam string string string
  | MethodReturn string string
  | AliasBody string
  | FunctionParam string string
  | FunctionReturn string

fun mentions :: "string \<Rightarrow> ty \<Rightarrow> bool"
and mentions_param :: "string \<Rightarrow> param \<Rightarrow> bool" where
  "mentions n (TRef m ts) = (m = n \<or> list_ex (mentions n) ts)"
| "mentions n (TArray t) = mentions n t"
| "mentions n (TUnion ts) = list_ex (mentions n) ts"
| "mentions n (TFun ps r) = (list_ex (mentions_param n) ps \<or> mentions n r)"
| "mentions n TAny = False"
| "mentions n TNumber = False"
| "mentions n TString = False"
| "mentions n TBoolean = False"
| "mentions n TVoid = False"
| "mentions n TNull = False"
| "mentions n (TLit s) = False"
| "mentions_param n (Param p q t) = mentions n t"

fun param_sites :: "(string \<Rightarrow> site) \<Rightarrow> param \<Rightarrow> site \<times> ty" where
  "param_sites f (Param p q t) = (f p, t)"

fun member_sites :: "string \<Rightarrow> member \<Rightarrow> (site \<times> ty) list" where
  "member_sites c (PropertySig n ro q t i) = [(PropertyType c n, t)]"
| "member_sites c (Constructor ps b) = map (param_sites (ConstructorParam c)) ps"
| "member_sites c (Method n s ps r b) =
     map (param_sites (MethodParam c n)) ps @ [(MethodReturn c n, r)]"

fun decl_sites :: "decl \<Rightarrow> (site \<times> ty) list" where
  "decl_sites (InterfaceDecl n ps ms) = concat (map (member_sites n) ms)"
| "decl_sites (ClassDecl n p ms) = concat (map (member_sites n) ms)"
| "decl_sites (TypeAliasDecl n t) = [(AliasBody n, t)]"
| "decl_sites (FunctionDecl n ps r b) =
     map (param_sites (FunctionParam n)) ps @ [(FunctionReturn n, r)]"

definition uses :: "decl list \<Rightarrow> string \<Rightarrow> site list" where
  "uses ds n = map fst (filter (\<lambda>st. mentions n (snd st)) (concat (map decl_sites ds)))"


subsection \<open>Comparing the two namespace declarations\<close>

text \<open>
  A declaration is declared with the same shape in another body when that body has an
  equal declaration: the same kind, name, members, parameters and types.
\<close>

definition declared_in :: "decl list \<Rightarrow> decl \<Rightarrow> bool" where
  "declared_in ds d = (d \<in> set ds)"

definition copies_agree :: "decl list \<Rightarrow> decl list \<Rightarrow> bool" where
  "copies_agree a b = (list_all (declared_in b) a \<and> list_all (declared_in a) b)"

text \<open>
  The spelling of the second declaration, from that of the first: a reference to
  \<^verbatim>\<open>BufferSource\<close> becomes the union \<^verbatim>\<open>ArrayBuffer | Uint8Array\<close>.
\<close>

fun spell :: "ty \<Rightarrow> ty"
and spell_param :: "param \<Rightarrow> param" where
  "spell (TRef n ts) =
     (if n = ''BufferSource'' \<and> ts = []
      then TUnion [TRef ''ArrayBuffer'' [], TRef ''Uint8Array'' []]
      else TRef n (map spell ts))"
| "spell (TArray t) = TArray (spell t)"
| "spell (TUnion ts) = TUnion (map spell ts)"
| "spell (TFun ps r) = TFun (map spell_param ps) (spell r)"
| "spell TAny = TAny"
| "spell TNumber = TNumber"
| "spell TString = TString"
| "spell TBoolean = TBoolean"
| "spell TVoid = TVoid"
| "spell TNull = TNull"
| "spell (TLit s) = TLit s"
| "spell_param (Param p q t) = Param p q (spell t)"

text \<open>A union without its \<^verbatim>\<open>null\<close> members; a union of one type is that type.\<close>

fun non_null :: "ty \<Rightarrow> ty" where
  "non_null (TUnion ts) =
     (case filter (\<lambda>t. t \<noteq> TNull) ts of [t] \<Rightarrow> t | us \<Rightarrow> TUnion us)"
| "non_null t = t"

fun older_member :: "member \<Rightarrow> member" where
  "older_member (PropertySig n ro q t i) = PropertySig n ro q (spell t) i"
| "older_member (Constructor ps b) = Constructor (map spell_param ps) b"
| "older_member (Method n s ps r b) = Method n s (map spell_param ps) (spell r) b"

fun older :: "decl \<Rightarrow> decl" where
  "older (InterfaceDecl n ps ms) = InterfaceDecl n ps (map older_member ms)"
| "older (ClassDecl n p ms) = ClassDecl n p (map older_member ms)"
| "older (TypeAliasDecl n t) = TypeAliasDecl n (non_null (spell t))"
| "older (FunctionDecl n ps r b) = FunctionDecl n (map spell_param ps) (spell r) b"

definition streaming :: "string list" where
  "streaming = [''compileStreaming'', ''instantiateStreaming'']"

subsection \<open>Asynchronous signatures\<close>

fun is_promise :: "ty \<Rightarrow> bool" where
  "is_promise (TRef n [t]) = (n = ''Promise'')"
| "is_promise t = False"

definition asynchronous :: "string list" where
  "asynchronous = [''compile'', ''instantiate'', ''compileStreaming'', ''instantiateStreaming'']"

text \<open>The function signatures of a body with one of the given names: name and return type.\<close>

fun returns_of :: "string list \<Rightarrow> decl list \<Rightarrow> (string \<times> ty) list" where
  "returns_of ns [] = []"
| "returns_of ns (FunctionDecl n ps r b # ds) =
     (if n \<in> set ns then (n, r) # returns_of ns ds else returns_of ns ds)"
| "returns_of ns (d # ds) = returns_of ns ds"

section \<open>Values of a declared type\<close>

text \<open>
  The values that a descriptor can hold: \<^verbatim>\<open>undefined\<close>, \<^verbatim>\<open>null\<close>,
  booleans, numbers, strings and objects. An object is seen through its properties,
  as a map from property names to values. Numbers are reals: no claim here depends
  on the rounding of a JavaScript number.
\<close>

datatype val =
    VUndefined
  | VNull
  | VBool bool
  | VNum real
  | VStr string
  | VObj "string \<Rightarrow> val option"

text \<open>
  Modelled from the spec: missing from the repository is the check that decides
  when a value has a declared type. The file only declares types, and the check is
  the compiler's. The spec calls the descriptors ``plain value shapes
  (\<^verbatim>\<open>initial\<close>, \<^verbatim>\<open>maximum\<close>, \<^verbatim>\<open>element\<close>)'' that are ``input
  parameters to a host constructor''. The relation reads such a shape as the
  TypeScript compiler does, for the types a plain shape is made of: the keyword
  types, string literal types, \<^verbatim>\<open>null\<close>, unions, references to aliases and
  references to interfaces. A reference to an interface has the objects whose
  properties have the types of the interface's property signatures, the inherited
  ones too; a property marked \<^verbatim>\<open>?\<close> may be missing or \<^verbatim>\<open>undefined\<close>.
  Function types, array types, classes and the types of the standard library are
  not types of plain shapes and have no rule.

  The repository fixes no compiler option, so the option that matters is a
  parameter: with \<^verbatim>\<open>strictNullChecks\<close> the values \<^verbatim>\<open>null\<close> and
  \<^verbatim>\<open>undefined\<close> have only the types that name them, and without it the
  compiler lets both pass at every type.
\<close>

inductive has_type :: "bool \<Rightarrow> decl list \<Rightarrow> val \<Rightarrow> ty \<Rightarrow> bool"
  for strict :: bool and ds :: "decl list" where
  T_any: "has_type strict ds v TAny"
| T_number: "has_type strict ds (VNum x) TNumber"
| T_string: "has_type strict ds (VStr s) TString"
| T_boolean: "has_type strict ds (VBool b) TBoolean"
| T_void: "has_type strict ds VUndefined TVoid"
| T_null: "has_type strict ds VNull TNull"
| T_literal: "has_type strict ds (VStr s) (TLit s)"
| T_union: "t \<in> set ts \<Longrightarrow> has_type strict ds v t \<Longrightarrow> has_type strict ds v (TUnion ts)"
| T_alias:
    "find_alias ds n = Some t \<Longrightarrow> has_type strict ds v t \<Longrightarrow>
     has_type strict ds v (TRef n [])"
| T_interface:
    "find_interface ds n = Some (ps, ms) \<Longrightarrow>
     \<forall>p ro q t i. PropertySig p ro q t i \<in> set (interface_members ds n) \<longrightarrow>
       (q \<and> (fs p = None \<or> fs p = Some VUndefined)) \<or>
       (\<exists>x. fs p = Some x \<and> has_type strict ds x t) \<Longrightarrow>
     has_type strict ds (VObj fs) (TRef n [])"
| T_unchecked:
    "\<not> strict \<Longrightarrow> v = VNull \<or> v = VUndefined \<Longrightarrow> has_type strict ds v t"

section \<open>Types that admit \<^verbatim>\<open>null\<close>\<close>




section \<open>Documentation comments\<close>

text \<open>
  The \<^verbatim>\<open>@returns\<close> tags of the file, by the place they document: lines 113,
  157 and 216, all three in the first namespace declaration. The second declaration
  documents no member.
\<close>

definition returns_tags :: "(site \<times> string) list" where
  "returns_tags =
   [ (MethodReturn ''Memory'' ''grow'', ''The previous number of allocated pages''),
     (MethodReturn ''Table'' ''grow'', ''The previous table length''),
     (FunctionReturn ''validate'',
        ''Whether compiling the module would throw a `CompileError`'') ]"



section \<open>Properties of the file\<close>

subsection \<open>Auxiliary facts\<close>

lemma copies_eq: "copies = [first_copy, second_copy]"
  by (simp add: copies_def index_d_ts_def)

lemmas spelled = req_def opt_def ref_def promise_def

text \<open>
  No chain of \<^verbatim>\<open>extends\<close> clauses in the file has more than two interfaces, so
  the bound in \<open>interface_members\<close> cuts no member off.
\<close>

lemma extends_chains_are_short:
  "members_upto (Suc (Suc k)) first_copy n = members_upto (Suc (Suc 0)) first_copy n"
  "members_upto (Suc (Suc k)) second_copy n = members_upto (Suc (Suc 0)) second_copy n"
  by (simp_all add: first_copy_def second_copy_def)



lemma TableDescriptor_members_first:
  "interface_members first_copy ''TableDescriptor'' =
   [ PropertySig ''initial'' False False TNumber None,
     PropertySig ''maximum'' False True TNumber None,
     PropertySig ''element'' False False (TLit ''anyfunc'') None ]"
  by (simp add: interface_members_def first_copy_def)

lemma TableDescriptor_members_second:
  "interface_members second_copy ''TableDescriptor'' =
   [ PropertySig ''initial'' False False TNumber None,
     PropertySig ''maximum'' False True TNumber None,
     PropertySig ''element'' False False (TLit ''anyfunc'') None ]"
  by (simp add: interface_members_def second_copy_def)

lemma TableDescriptor_interface_first:
  "find_interface first_copy ''TableDescriptor'' =
   Some ([''MemoryDescriptor''],
         [PropertySig ''element'' False False (TLit ''anyfunc'') None])"
  by (simp add: first_copy_def)






subsection \<open>The two declarations of the namespace\<close>

text \<open>
  Claim C1, as amended. The file declares the namespace \<^verbatim>\<open>WebAssembly\<close> twice,
  and the second declaration is the first one up to three differences:
  \<^verbatim>\<open>compileStreaming\<close> and \<^verbatim>\<open>instantiateStreaming\<close> are declared in the
  first only; where the first writes \<^verbatim>\<open>BufferSource\<close> the second writes
  \<^verbatim>\<open>ArrayBuffer | Uint8Array\<close>; and \<^verbatim>\<open>AnyFunc\<close> is the function type or
  \<^verbatim>\<open>null\<close> in the first and the function type alone in the second. The
  declarations are in the same order. Twelve of them have the same shape in both:
  the five interfaces, the classes other than \<^verbatim>\<open>Module\<close>, and the overload of
  \<^verbatim>\<open>instantiate\<close> that takes a module. \<^verbatim>\<open>Module\<close>, \<^verbatim>\<open>AnyFunc\<close>,
  \<^verbatim>\<open>compile\<close>, the other overload of \<^verbatim>\<open>instantiate\<close> and
  \<^verbatim>\<open>validate\<close> differ.
\<close>

theorem copies_agree_up_to_spelling:
  "copies = [first_copy, second_copy] \<and>
   second_copy = map older (filter (\<lambda>d. decl_name d \<notin> set streaming) first_copy) \<and>
   outline (filter (declared_in second_copy) first_copy) =
     [ (KInterface, ''ModuleExport''), (KInterface, ''ModuleImport''),
       (KClass, ''Instance''), (KInterface, ''MemoryDescriptor''),
       (KClass, ''Memory''), (KInterface, ''TableDescriptor''),
       (KClass, ''Table''), (KClass, ''CompileError''), (KClass, ''LinkError''),
       (KClass, ''RuntimeError''), (KInterface, ''ResultObject''),
       (KFunction, ''instantiate'') ] \<and>
   outline (filter (\<lambda>d. \<not> declared_in second_copy d) first_copy) =
     [ (KClass, ''Module''), (KTypeAlias, ''AnyFunc''), (KFunction, ''compile''),
       (KFunction, ''compileStreaming''), (KFunction, ''instantiate''),
       (KFunction, ''instantiateStreaming''), (KFunction, ''validate'') ] \<and>
   outline (filter (\<lambda>d. \<not> declared_in first_copy d) second_copy) =
     [ (KClass, ''Module''), (KTypeAlias, ''AnyFunc''), (KFunction, ''compile''),
       (KFunction, ''instantiate''), (KFunction, ''validate'') ]"
proof -
  have "second_copy = map older (filter (\<lambda>d. decl_name d \<notin> set streaming) first_copy)"
    by (simp add: first_copy_def second_copy_def streaming_def spelled)
  moreover have "outline (filter (declared_in second_copy) first_copy) =
     [ (KInterface, ''ModuleExport''), (KInterface, ''ModuleImport''),
       (KClass, ''Instance''), (KInterface, ''MemoryDescriptor''),
       (KClass, ''Memory''), (KInterface, ''TableDescriptor''),
       (KClass, ''Table''), (KClass, ''CompileError''), (KClass, ''LinkError''),
       (KClass, ''RuntimeError''), (KInterface, ''ResultObject''),
       (KFunction, ''instantiate'') ]"
    by (simp add: outline_def declared_in_def first_copy_def second_copy_def spelled)
  moreover have "outline (filter (\<lambda>d. \<not> declared_in second_copy d) first_copy) =
     [ (KClass, ''Module''), (KTypeAlias, ''AnyFunc''), (KFunction, ''compile''),
       (KFunction, ''compileStreaming''), (KFunction, ''instantiate''),
       (KFunction, ''instantiateStreaming''), (KFunction, ''validate'') ]"
    by (simp add: outline_def declared_in_def first_copy_def second_copy_def spelled)
  moreover have "outline (filter (\<lambda>d. \<not> declared_in first_copy d) second_copy) =
     [ (KClass, ''Module''), (KTypeAlias, ''AnyFunc''), (KFunction, ''compile''),
       (KFunction, ''instantiate''), (KFunction, ''validate'') ]"
    by (simp add: outline_def declared_in_def first_copy_def second_copy_def spelled)
  ultimately show ?thesis
    using copies_eq by simp
qed

text \<open>
  The claim as it was stated, that each declaration of one copy is declared with the
  same shape in the other, fails: \<^verbatim>\<open>compileStreaming\<close>, for one, is declared in
  the first copy only.
\<close>

theorem copies_do_not_agree:
  "\<not> copies_agree first_copy second_copy"
  by (simp add: copies_agree_def declared_in_def first_copy_def second_copy_def spelled)

subsection \<open>Declarations only\<close>

text \<open>
  Claim C2. The file consists solely of type declarations: each of its top-level
  items is a \<^verbatim>\<open>declare namespace\<close>, no function, method or constructor has a
  body and no property has an initialiser, so the file has no executable code. Each
  namespace declaration declares the classes \<^verbatim>\<open>Module\<close>, \<^verbatim>\<open>Instance\<close>,
  \<^verbatim>\<open>Memory\<close> and \<^verbatim>\<open>Table\<close>, the functions \<^verbatim>\<open>compile\<close> and
  \<^verbatim>\<open>instantiate\<close> and the three error classes.
\<close>

theorem declarations_only:
  "list_all is_ambient index_d_ts \<and>
   executable_code index_d_ts = [] \<and>
   length (executable_code index_d_ts) = 0 \<and>
   map outline (namespace_bodies ''WebAssembly'' index_d_ts) =
     [ [ (KInterface, ''ModuleExport''), (KInterface, ''ModuleImport''),
         (KClass, ''Module''), (KClass, ''Instance''),
         (KInterface, ''MemoryDescriptor''), (KClass, ''Memory''),
         (KInterface, ''TableDescriptor''), (KTypeAlias, ''AnyFunc''),
         (KClass, ''Table''), (KClass, ''CompileError''), (KClass, ''LinkError''),
         (KClass, ''RuntimeError''), (KFunction, ''compile''),
         (KFunction, ''compileStreaming''), (KInterface, ''ResultObject''),
         (KFunction, ''instantiate''), (KFunction, ''instantiate''),
         (KFunction, ''instantiateStreaming''), (KFunction, ''validate'') ],
       [ (KInterface, ''ModuleExport''), (KInterface, ''ModuleImport''),
         (KClass, ''Module''), (KClass, ''Instance''),
         (KInterface, ''MemoryDescriptor''), (KClass, ''Memory''),
         (KInterface, ''TableDescriptor''), (KTypeAlias, ''AnyFunc''),
         (KClass, ''Table''), (KClass, ''CompileError''), (KClass, ''LinkError''),
         (KClass, ''RuntimeError''), (KFunction, ''compile''),
         (KInterface, ''ResultObject''), (KFunction, ''instantiate''),
         (KFunction, ''instantiate''), (KFunction, ''validate'') ] ]"
proof -
  have "list_all is_ambient index_d_ts"
    by (simp add: index_d_ts_def)
  moreover have "executable_code index_d_ts = []"
    by (simp add: executable_code_def index_d_ts_def first_copy_def second_copy_def)
  moreover have "map outline (namespace_bodies ''WebAssembly'' index_d_ts) =
      [outline first_copy, outline second_copy]"
    by (simp add: index_d_ts_def)
  ultimately show ?thesis
    by (simp add: outline_def first_copy_def second_copy_def)
qed

subsection \<open>The error classes\<close>

text \<open>
  Claim C3. In each declaration of the namespace the classes with an
  \<^verbatim>\<open>extends\<close> clause are \<^verbatim>\<open>CompileError\<close>, \<^verbatim>\<open>LinkError\<close> and
  \<^verbatim>\<open>RuntimeError\<close>, three names in the whole file; each extends
  \<^verbatim>\<open>Error\<close> and has no member. The other \<^verbatim>\<open>extends\<close> clauses of the file
  are those of the interfaces \<^verbatim>\<open>ModuleImport\<close> and \<^verbatim>\<open>TableDescriptor\<close>,
  and what they extend, \<^verbatim>\<open>ModuleExport\<close> and \<^verbatim>\<open>MemoryDescriptor\<close>, is
  declared as an interface and as nothing else.
\<close>

theorem three_error_classes:
  "map (filter is_subclass) copies =
     [ [ ClassDecl ''CompileError'' (Some ''Error'') [],
         ClassDecl ''LinkError'' (Some ''Error'') [],
         ClassDecl ''RuntimeError'' (Some ''Error'') [] ],
       [ ClassDecl ''CompileError'' (Some ''Error'') [],
         ClassDecl ''LinkError'' (Some ''Error'') [],
         ClassDecl ''RuntimeError'' (Some ''Error'') [] ] ] \<and>
   remdups (map decl_name (concat (map (filter is_subclass) copies))) =
     [''CompileError'', ''LinkError'', ''RuntimeError''] \<and>
   map heritages copies =
     [ [ (KInterface, ''ModuleImport'', ''ModuleExport''),
         (KInterface, ''TableDescriptor'', ''MemoryDescriptor''),
         (KClass, ''CompileError'', ''Error''),
         (KClass, ''LinkError'', ''Error''),
         (KClass, ''RuntimeError'', ''Error'') ],
       [ (KInterface, ''ModuleImport'', ''ModuleExport''),
         (KInterface, ''TableDescriptor'', ''MemoryDescriptor''),
         (KClass, ''CompileError'', ''Error''),
         (KClass, ''LinkError'', ''Error''),
         (KClass, ''RuntimeError'', ''Error'') ] ] \<and>
   map (\<lambda>ds. map (kinds_of ds) [''ModuleExport'', ''MemoryDescriptor'']) copies =
     [ [[KInterface], [KInterface]], [[KInterface], [KInterface]] ]"
proof -
  have sub: "filter is_subclass first_copy =
       [ ClassDecl ''CompileError'' (Some ''Error'') [],
         ClassDecl ''LinkError'' (Some ''Error'') [],
         ClassDecl ''RuntimeError'' (Some ''Error'') [] ]"
     "filter is_subclass second_copy =
       [ ClassDecl ''CompileError'' (Some ''Error'') [],
         ClassDecl ''LinkError'' (Some ''Error'') [],
         ClassDecl ''RuntimeError'' (Some ''Error'') [] ]"
    by (simp_all add: first_copy_def second_copy_def)
  have her: "heritages first_copy =
       [ (KInterface, ''ModuleImport'', ''ModuleExport''),
         (KInterface, ''TableDescriptor'', ''MemoryDescriptor''),
         (KClass, ''CompileError'', ''Error''),
         (KClass, ''LinkError'', ''Error''),
         (KClass, ''RuntimeError'', ''Error'') ]"
     "heritages second_copy =
       [ (KInterface, ''ModuleImport'', ''ModuleExport''),
         (KInterface, ''TableDescriptor'', ''MemoryDescriptor''),
         (KClass, ''CompileError'', ''Error''),
         (KClass, ''LinkError'', ''Error''),
         (KClass, ''RuntimeError'', ''Error'') ]"
    by (simp_all add: heritages_def first_copy_def second_copy_def)
  have kinds: "kinds_of first_copy ''ModuleExport'' = [KInterface]"
     "kinds_of first_copy ''MemoryDescriptor'' = [KInterface]"
     "kinds_of second_copy ''ModuleExport'' = [KInterface]"
     "kinds_of second_copy ''MemoryDescriptor'' = [KInterface]"
    by (simp_all add: kinds_of_def first_copy_def second_copy_def)
  show ?thesis
    by (simp add: copies_eq sub her kinds)
qed


subsection \<open>The descriptors\<close>

text \<open>
  Claim C4. In each declaration of the namespace \<^verbatim>\<open>MemoryDescriptor\<close> is an
  interface that extends nothing and has exactly the required property
  \<^verbatim>\<open>initial\<close> and the optional property \<^verbatim>\<open>maximum\<close>, both numbers.
  \<^verbatim>\<open>TableDescriptor\<close> is an interface that extends it and adds exactly the
  required property \<^verbatim>\<open>element\<close>, so that it has those three properties.
  Neither is a class and neither has a method or a constructor. The only type
  annotation that names \<^verbatim>\<open>MemoryDescriptor\<close> is the parameter of the
  constructor of \<^verbatim>\<open>Memory\<close>, and the only one that names
  \<^verbatim>\<open>TableDescriptor\<close> is the parameter of the constructor of \<^verbatim>\<open>Table\<close>.
\<close>

theorem descriptors_are_plain_shapes:
  "map (\<lambda>ds. find_interface ds ''MemoryDescriptor'') copies =
     [ Some ([], [ PropertySig ''initial'' False False TNumber None,
                   PropertySig ''maximum'' False True TNumber None ]),
       Some ([], [ PropertySig ''initial'' False False TNumber None,
                   PropertySig ''maximum'' False True TNumber None ]) ] \<and>
   map (\<lambda>ds. find_interface ds ''TableDescriptor'') copies =
     [ Some ([''MemoryDescriptor''],
             [ PropertySig ''element'' False False (TLit ''anyfunc'') None ]),
       Some ([''MemoryDescriptor''],
             [ PropertySig ''element'' False False (TLit ''anyfunc'') None ]) ] \<and>
   map (\<lambda>ds. interface_members ds ''TableDescriptor'') copies =
     [ [ PropertySig ''initial'' False False TNumber None,
         PropertySig ''maximum'' False True TNumber None,
         PropertySig ''element'' False False (TLit ''anyfunc'') None ],
       [ PropertySig ''initial'' False False TNumber None,
         PropertySig ''maximum'' False True TNumber None,
         PropertySig ''element'' False False (TLit ''anyfunc'') None ] ] \<and>
   map (\<lambda>ds. list_all is_property
          (interface_members ds ''MemoryDescriptor'' @ interface_members ds ''TableDescriptor''))
     copies = [True, True] \<and>
   map (\<lambda>ds. map (kinds_of ds) [''MemoryDescriptor'', ''TableDescriptor'']) copies =
     [ [[KInterface], [KInterface]], [[KInterface], [KInterface]] ] \<and>
   map (\<lambda>ds. uses ds ''MemoryDescriptor'') copies =
     [ [ConstructorParam ''Memory'' ''memoryDescriptor''],
       [ConstructorParam ''Memory'' ''memoryDescriptor''] ] \<and>
   map (\<lambda>ds. uses ds ''TableDescriptor'') copies =
     [ [ConstructorParam ''Table'' ''tableDescriptor''],
       [ConstructorParam ''Table'' ''tableDescriptor''] ]"
proof -
  have md: "find_interface first_copy ''MemoryDescriptor'' =
       Some ([], [ PropertySig ''initial'' False False TNumber None,
                   PropertySig ''maximum'' False True TNumber None ])"
     "find_interface second_copy ''MemoryDescriptor'' =
       Some ([], [ PropertySig ''initial'' False False TNumber None,
                   PropertySig ''maximum'' False True TNumber None ])"
    by (simp_all add: first_copy_def second_copy_def)
  have td: "find_interface second_copy ''TableDescriptor'' =
       Some ([''MemoryDescriptor''],
             [ PropertySig ''element'' False False (TLit ''anyfunc'') None ])"
    by (simp add: second_copy_def)
  have mdm: "interface_members first_copy ''MemoryDescriptor'' =
       [ PropertySig ''initial'' False False TNumber None,
         PropertySig ''maximum'' False True TNumber None ]"
     "interface_members second_copy ''MemoryDescriptor'' =
       [ PropertySig ''initial'' False False TNumber None,
         PropertySig ''maximum'' False True TNumber None ]"
    by (simp_all add: interface_members_def first_copy_def second_copy_def)
  have kinds: "kinds_of first_copy ''MemoryDescriptor'' = [KInterface]"
     "kinds_of first_copy ''TableDescriptor'' = [KInterface]"
     "kinds_of second_copy ''MemoryDescriptor'' = [KInterface]"
     "kinds_of second_copy ''TableDescriptor'' = [KInterface]"
    by (simp_all add: kinds_of_def first_copy_def second_copy_def)
  have um: "uses first_copy ''MemoryDescriptor'' =
       [ConstructorParam ''Memory'' ''memoryDescriptor'']"
     "uses second_copy ''MemoryDescriptor'' =
       [ConstructorParam ''Memory'' ''memoryDescriptor'']"
    by (simp_all add: uses_def first_copy_def second_copy_def spelled)
  have ut: "uses first_copy ''TableDescriptor'' =
       [ConstructorParam ''Table'' ''tableDescriptor'']"
     "uses second_copy ''TableDescriptor'' =
       [ConstructorParam ''Table'' ''tableDescriptor'']"
    by (simp_all add: uses_def first_copy_def second_copy_def spelled)
  show ?thesis
    by (simp add: copies_eq md td mdm kinds um ut TableDescriptor_interface_first
          TableDescriptor_members_first TableDescriptor_members_second)
qed

subsection \<open>Module metadata\<close>

text \<open>
  Claim C5. In each declaration of the namespace \<^verbatim>\<open>ModuleExport\<close> has exactly
  the string properties \<^verbatim>\<open>name\<close> and \<^verbatim>\<open>kind\<close>; \<^verbatim>\<open>ModuleImport\<close>
  extends \<^verbatim>\<open>ModuleExport\<close> and adds exactly the string property
  \<^verbatim>\<open>module\<close>, so that the metadata have the properties \<^verbatim>\<open>name\<close>,
  \<^verbatim>\<open>kind\<close> and \<^verbatim>\<open>module\<close>; and the static method
  \<^verbatim>\<open>customSections\<close> of \<^verbatim>\<open>Module\<close>, of a module and a section name, returns
  \<^verbatim>\<open>ArrayBuffer[]\<close>.
\<close>

theorem module_metadata_shapes:
  "map (\<lambda>ds. find_interface ds ''ModuleExport'') copies =
     [ Some ([], [ PropertySig ''name'' False False TString None,
                   PropertySig ''kind'' False False TString None ]),
       Some ([], [ PropertySig ''name'' False False TString None,
                   PropertySig ''kind'' False False TString None ]) ] \<and>
   map (\<lambda>ds. find_interface ds ''ModuleImport'') copies =
     [ Some ([''ModuleExport''], [ PropertySig ''module'' False False TString None ]),
       Some ([''ModuleExport''], [ PropertySig ''module'' False False TString None ]) ] \<and>
   map (\<lambda>ds. interface_members ds ''ModuleImport'') copies =
     [ [ PropertySig ''name'' False False TString None,
         PropertySig ''kind'' False False TString None,
         PropertySig ''module'' False False TString None ],
       [ PropertySig ''name'' False False TString None,
         PropertySig ''kind'' False False TString None,
         PropertySig ''module'' False False TString None ] ] \<and>
   map (\<lambda>ds. class_methods ds ''Module'' ''customSections'') copies =
     [ [ (True, [ Param ''module'' False (TRef ''Module'' []),
                  Param ''sectionName'' False TString ],
          TArray (TRef ''ArrayBuffer'' [])) ],
       [ (True, [ Param ''module'' False (TRef ''Module'' []),
                  Param ''sectionName'' False TString ],
          TArray (TRef ''ArrayBuffer'' [])) ] ]"
proof -
  have me: "find_interface first_copy ''ModuleExport'' =
       Some ([], [ PropertySig ''name'' False False TString None,
                   PropertySig ''kind'' False False TString None ])"
     "find_interface second_copy ''ModuleExport'' =
       Some ([], [ PropertySig ''name'' False False TString None,
                   PropertySig ''kind'' False False TString None ])"
    by (simp_all add: first_copy_def second_copy_def)
  have mi: "find_interface first_copy ''ModuleImport'' =
       Some ([''ModuleExport''], [ PropertySig ''module'' False False TString None ])"
     "find_interface second_copy ''ModuleImport'' =
       Some ([''ModuleExport''], [ PropertySig ''module'' False False TString None ])"
    by (simp_all add: first_copy_def second_copy_def)
  have mim: "interface_members first_copy ''ModuleImport'' =
       [ PropertySig ''name'' False False TString None,
         PropertySig ''kind'' False False TString None,
         PropertySig ''module'' False False TString None ]"
     "interface_members second_copy ''ModuleImport'' =
       [ PropertySig ''name'' False False TString None,
         PropertySig ''kind'' False False TString None,
         PropertySig ''module'' False False TString None ]"
    by (simp_all add: interface_members_def first_copy_def second_copy_def)
  have cs: "class_methods first_copy ''Module'' ''customSections'' =
       [ (True, [ Param ''module'' False (TRef ''Module'' []),
                  Param ''sectionName'' False TString ],
          TArray (TRef ''ArrayBuffer'' [])) ]"
     "class_methods second_copy ''Module'' ''customSections'' =
       [ (True, [ Param ''module'' False (TRef ''Module'' []),
                  Param ''sectionName'' False TString ],
          TArray (TRef ''ArrayBuffer'' [])) ]"
    by (simp_all add: class_methods_def first_copy_def second_copy_def spelled)
  show ?thesis
    by (simp add: copies_eq me mi mim cs)
qed

subsection \<open>Asynchronous functions\<close>

text \<open>
  Claim C6. Every signature in the file of a function called \<^verbatim>\<open>compile\<close>,
  \<^verbatim>\<open>instantiate\<close>, \<^verbatim>\<open>compileStreaming\<close> or \<^verbatim>\<open>instantiateStreaming\<close>
  has a return type of the form \<^verbatim>\<open>Promise<...>\<close>: five signatures in the first
  declaration of the namespace and three in the second, the two overloads of
  \<^verbatim>\<open>instantiate\<close> among them in each. Each of the four names is declared in
  the file.
\<close>

theorem asynchronous_functions_return_promises:
  "map (returns_of asynchronous) copies =
     [ [ (''compile'', TRef ''Promise'' [TRef ''Module'' []]),
         (''compileStreaming'', TRef ''Promise'' [TRef ''Module'' []]),
         (''instantiate'', TRef ''Promise'' [TRef ''ResultObject'' []]),
         (''instantiate'', TRef ''Promise'' [TRef ''Instance'' []]),
         (''instantiateStreaming'', TRef ''Promise'' [TRef ''ResultObject'' []]) ],
       [ (''compile'', TRef ''Promise'' [TRef ''Module'' []]),
         (''instantiate'', TRef ''Promise'' [TRef ''ResultObject'' []]),
         (''instantiate'', TRef ''Promise'' [TRef ''Instance'' []]) ] ] \<and>
   list_all (\<lambda>sg. is_promise (snd sg)) (concat (map (returns_of asynchronous) copies)) \<and>
   list_all (\<lambda>n. n \<in> set (map fst (concat (map (returns_of asynchronous) copies))))
     asynchronous"
proof -
  have r: "returns_of asynchronous first_copy =
       [ (''compile'', TRef ''Promise'' [TRef ''Module'' []]),
         (''compileStreaming'', TRef ''Promise'' [TRef ''Module'' []]),
         (''instantiate'', TRef ''Promise'' [TRef ''ResultObject'' []]),
         (''instantiate'', TRef ''Promise'' [TRef ''Instance'' []]),
         (''instantiateStreaming'', TRef ''Promise'' [TRef ''ResultObject'' []]) ]"
     "returns_of asynchronous second_copy =
       [ (''compile'', TRef ''Promise'' [TRef ''Module'' []]),
         (''instantiate'', TRef ''Promise'' [TRef ''ResultObject'' []]),
         (''instantiate'', TRef ''Promise'' [TRef ''Instance'' []]) ]"
    by (simp_all add: asynchronous_def first_copy_def second_copy_def spelled)
  show ?thesis
    by (simp add: copies_eq r) (simp add: asynchronous_def)
qed


subsection \<open>The element kind of a table\<close>



subsection \<open>Validation\<close>

text \<open>
  Claim C8. Both declarations of the namespace declare the function
  \<^verbatim>\<open>validate\<close>, once each, of one required parameter \<^verbatim>\<open>bufferSource\<close>, a
  \<^verbatim>\<open>BufferSource\<close> in the first and an \<^verbatim>\<open>ArrayBuffer | Uint8Array\<close> in the
  second. It returns \<^verbatim>\<open>boolean\<close>, which is not a \<^verbatim>\<open>Promise\<close>, and the
  result is documented as whether compiling the module would throw a
  \<^verbatim>\<open>CompileError\<close>.
\<close>

theorem validate_is_synchronous:
  "map (\<lambda>ds. signatures ds ''validate'') copies =
     [ [ ([Param ''bufferSource'' False (TRef ''BufferSource'' [])], TBoolean) ],
       [ ([Param ''bufferSource'' False
             (TUnion [TRef ''ArrayBuffer'' [], TRef ''Uint8Array'' []])], TBoolean) ] ] \<and>
   map (\<lambda>ds. map (\<lambda>sg. is_promise (snd sg)) (signatures ds ''validate'')) copies =
     [[False], [False]] \<and>
   map_of returns_tags (FunctionReturn ''validate'') =
     Some ''Whether compiling the module would throw a `CompileError`''"
proof -
  have sg: "signatures first_copy ''validate'' =
       [ ([Param ''bufferSource'' False (TRef ''BufferSource'' [])], TBoolean) ]"
     "signatures second_copy ''validate'' =
       [ ([Param ''bufferSource'' False
             (TUnion [TRef ''ArrayBuffer'' [], TRef ''Uint8Array'' []])], TBoolean) ]"
    by (simp_all add: first_copy_def second_copy_def spelled)
  have "map_of returns_tags (FunctionReturn ''validate'') =
     Some ''Whether compiling the module would throw a `CompileError`''"
    by (simp add: returns_tags_def)
  then show ?thesis
    by (simp add: copies_eq sg)
qed

subsection \<open>Growing a memory and a table\<close>

text \<open>
  What the file has of the two \<^verbatim>\<open>grow\<close> methods: in both declarations of the
  namespace each takes a number and returns a number, and the first declaration
  documents the result as the previous size. The sizes themselves are the host's.
\<close>

lemma grow_declarations:
  "map (\<lambda>ds. class_methods ds ''Memory'' ''grow'') copies =
     [ [(False, [Param ''numPages'' False TNumber], TNumber)],
       [(False, [Param ''numPages'' False TNumber], TNumber)] ]"
  "map (\<lambda>ds. class_methods ds ''Table'' ''grow'') copies =
     [ [(False, [Param ''numElements'' False TNumber], TNumber)],
       [(False, [Param ''numElements'' False TNumber], TNumber)] ]"
  "map_of returns_tags (MethodReturn ''Memory'' ''grow'') =
     Some ''The previous number of allocated pages''"
  "map_of returns_tags (MethodReturn ''Table'' ''grow'') =
     Some ''The previous table length''"
  by (simp_all add: copies_eq class_methods_def first_copy_def second_copy_def spelled
        returns_tags_def)

subsection \<open>Unset elements of a table\<close>


end
